theory Spec2Isabelle
  imports Complex_Main "HOL-Library.Word"
begin

section \<open>Python values, errors and images\<close>

text \<open>
  The preprocessing functions of \<^verbatim>\<open>training/preprocess.py\<close> receive what
  \<^verbatim>\<open>json.loads\<close> returns: dictionaries, lists, strings, numbers, booleans and
  \<^verbatim>\<open>None\<close>. Python checks types at run time, so every operation of the source
  on such a value is a function into \<open>py_error + 'a\<close>, with \<open>Inl\<close> the exception
  raised. Python's \<^verbatim>\<open>int\<close> is an unbounded integer. A \<^verbatim>\<open>float\<close> is a real number:
  the rounding of floating-point arithmetic, infinities and \<^verbatim>\<open>nan\<close> are not modelled
  (the arithmetic of the source on two floats raises nothing). A dictionary is an
  association list read with \<open>map_of\<close>.
\<close>

datatype py_error =
  ZeroDivisionError | KeyError | TypeError | AttributeError | ValueError | IndexError
  | RuntimeError | OverflowError

datatype pyval =
  PNone
  | PBool bool
  | PInt int
  | PFloat real
  | PStr string
  | PList "pyval list"
  | PDict "(string \<times> pyval) list"

type_synonym pydict = "(string \<times> pyval) list"

text \<open>A grayscale image (mode \<^verbatim>\<open>L\<close>, dtype \<^verbatim>\<open>uint8\<close>): a list of rows of 8-bit pixels.\<close>

type_synonym image = "8 word list list"

type_synonym tensor = "real list list list"

text \<open>\<^verbatim>\<open>d.get(k, default)\<close> on a dictionary.\<close>

definition dict_get :: "pydict \<Rightarrow> string \<Rightarrow> pyval \<Rightarrow> pyval" where
  "dict_get d k dflt = (case map_of d k of None \<Rightarrow> dflt | Some v \<Rightarrow> v)"

text \<open>\<^verbatim>\<open>v.get(k, default)\<close> on any value: only a dictionary has the method.\<close>

fun py_get :: "pyval \<Rightarrow> string \<Rightarrow> pyval \<Rightarrow> py_error + pyval" where
  "py_get (PDict d) k dflt = Inr (dict_get d k dflt)"
| "py_get _ k dflt = Inl AttributeError"

text \<open>\<^verbatim>\<open>v[k]\<close> with a string key: a missing key raises \<^verbatim>\<open>KeyError\<close>, and a value
  that is not a dictionary raises \<^verbatim>\<open>TypeError\<close>.\<close>

fun py_getitem :: "pyval \<Rightarrow> string \<Rightarrow> py_error + pyval" where
  "py_getitem (PDict d) k = (case map_of d k of None \<Rightarrow> Inl KeyError | Some v \<Rightarrow> Inr v)"
| "py_getitem _ k = Inl TypeError"

text \<open>
  An \<^verbatim>\<open>int\<close> that meets a float in \<^verbatim>\<open>*\<close>, \<^verbatim>\<open>+\<close> or \<^verbatim>\<open>/\<close> is converted to a float
  first. The largest float is \<open>2 ^ 1024 - 2 ^ 971\<close>; an integer below
  \<open>2 ^ 1024 - 2 ^ 970\<close> in absolute value rounds to a float and any other raises
  \<^verbatim>\<open>OverflowError\<close>.
\<close>

definition float_limit :: int where
  "float_limit = 2 ^ 1024 - 2 ^ 970"

definition fits_float :: "int \<Rightarrow> bool" where
  "fits_float n = (\<bar>n\<bar> < float_limit)"

text \<open>The operand of \<^verbatim>\<open>*\<close> or \<^verbatim>\<open>+\<close> whose other operand is a float: a float, an
  \<^verbatim>\<open>int\<close> converted to a float, a boolean as 0 or 1; any other value raises
  \<^verbatim>\<open>TypeError\<close>.\<close>

fun py_float :: "pyval \<Rightarrow> py_error + real" where
  "py_float (PFloat r) = Inr r"
| "py_float (PInt n) = (if fits_float n then Inr (real_of_int n) else Inl OverflowError)"
| "py_float (PBool b) = Inr (if b then 1 else 0)"
| "py_float _ = Inl TypeError"

text \<open>The value of a number; comparisons between \<^verbatim>\<open>int\<close> and \<^verbatim>\<open>float\<close> are
  exact and raise nothing.\<close>

fun py_value :: "pyval \<Rightarrow> real option" where
  "py_value (PFloat r) = Some r"
| "py_value (PInt n) = Some (real_of_int n)"
| "py_value (PBool b) = Some (if b then 1 else 0)"
| "py_value _ = None"

text \<open>\<^verbatim>\<open>max(a, b)\<close> on two numbers returns \<open>b\<close> when it is the greater and \<open>a\<close>
  otherwise, as the object it is. On other values either \<^verbatim>\<open>max\<close> raises
  \<^verbatim>\<open>TypeError\<close> or the division that takes its result does (line 41); the model
  raises it here.\<close>

definition py_max :: "pyval \<Rightarrow> pyval \<Rightarrow> py_error + pyval" where
  "py_max a b =
     (case py_value a of None \<Rightarrow> Inl TypeError | Some x \<Rightarrow>
      case py_value b of None \<Rightarrow> Inl TypeError | Some y \<Rightarrow>
        Inr (if x < y then b else a))"

text \<open>\<^verbatim>\<open>len(v)\<close>.\<close>

fun py_len :: "pyval \<Rightarrow> py_error + nat" where
  "py_len (PList xs) = Inr (length xs)"
| "py_len (PStr s) = Inr (length s)"
| "py_len (PDict d) = Inr (length d)"
| "py_len _ = Inl TypeError"

text \<open>\<^verbatim>\<open>for x in v\<close>: a list gives its elements, a string its characters and a
  dictionary its keys.\<close>

fun py_iter :: "pyval \<Rightarrow> py_error + pyval list" where
  "py_iter (PList xs) = Inr xs"
| "py_iter (PStr s) = Inr (map (\<lambda>c. PStr [c]) s)"
| "py_iter (PDict d) = Inr (map (\<lambda>kv. PStr (fst kv)) d)"
| "py_iter _ = Inl TypeError"

text \<open>
  \<^verbatim>\<open>a / b\<close> with \<open>a\<close> an \<^verbatim>\<open>int\<close>. The quotient of two integers is computed from the
  integers: a zero divisor raises \<^verbatim>\<open>ZeroDivisionError\<close> and a quotient too large
  for a float raises \<^verbatim>\<open>OverflowError\<close>. With a float divisor, \<open>a\<close> is converted to a
  float first, and then a zero divisor raises \<^verbatim>\<open>ZeroDivisionError\<close>.
\<close>

definition int_truediv_int :: "int \<Rightarrow> int \<Rightarrow> py_error + real" where
  "int_truediv_int a n =
     (if n = 0 then Inl ZeroDivisionError
      else if float_limit * \<bar>n\<bar> \<le> \<bar>a\<bar> then Inl OverflowError
      else Inr (real_of_int a / real_of_int n))"

fun int_truediv :: "int \<Rightarrow> pyval \<Rightarrow> py_error + real" where
  "int_truediv a (PInt n) = int_truediv_int a n"
| "int_truediv a (PBool b) = int_truediv_int a (if b then 1 else 0)"
| "int_truediv a (PFloat r) =
     (if \<not> fits_float a then Inl OverflowError
      else if r = 0 then Inl ZeroDivisionError
      else Inr (real_of_int a / r))"
| "int_truediv a _ = Inl TypeError"

section \<open>The imaging library\<close>

text \<open>\<^verbatim>\<open>Image.new('L', (w, h), color)\<close>: a negative dimension raises \<^verbatim>\<open>ValueError\<close>.
  The memory an image takes is not a limit here.\<close>

definition Image_new :: "int \<Rightarrow> int \<Rightarrow> 8 word \<Rightarrow> py_error + image" where
  "Image_new w h color =
     (if w < 0 \<or> h < 0 then Inl ValueError
      else Inr (replicate (nat h) (replicate (nat w) color)))"

text \<open>
  \<^verbatim>\<open>ImageDraw.line\<close> is code of the imaging library. Which pixels a segment of a given
  width covers is a parameter of the model: \<open>cover p q width x y\<close> says whether the
  segment from \<open>p\<close> to \<open>q\<close> covers the pixel in column \<open>x\<close> and row \<open>y\<close>. The drawing surface
  stores the fill value in the covered pixels that it has; the others are clipped.
\<close>

type_synonym line_cover = "real \<times> real \<Rightarrow> real \<times> real \<Rightarrow> int \<Rightarrow> nat \<Rightarrow> nat \<Rightarrow> bool"

definition draw_line ::
  "line_cover \<Rightarrow> image \<Rightarrow> real \<times> real \<Rightarrow> real \<times> real \<Rightarrow> 8 word \<Rightarrow> int \<Rightarrow> image" where
  "draw_line cover img p q fill width =
     map (\<lambda>i. map (\<lambda>j. if cover p q width j i then fill else img ! i ! j)
                 [0..<length (img ! i)])
         [0..<length img]"

section \<open>strokes_to_image\<close>

text \<open>
  The body of the loop over the points of one stroke (lines 54 and 55). The scale is a
  float and the offsets are the \<^verbatim>\<open>int\<close> padding: \<^verbatim>\<open>pt['x'] * scale\<close> converts the
  coordinate to a float and \<^verbatim>\<open>+ offset_x\<close> converts the offset, so an integer
  coordinate or an offset too large for a float raises \<^verbatim>\<open>OverflowError\<close>. The x
  coordinate is computed in full before \<^verbatim>\<open>pt['y']\<close> is read.
\<close>

definition convert_point :: "real \<Rightarrow> int \<Rightarrow> int \<Rightarrow> pyval \<Rightarrow> py_error + real \<times> real" where
  "convert_point scale offset_x offset_y pt =
     (case py_getitem pt ''x'' of Inl e \<Rightarrow> Inl e | Inr vx \<Rightarrow>
      case py_float vx of Inl e \<Rightarrow> Inl e | Inr x \<Rightarrow>
      case py_float (PInt offset_x) of Inl e \<Rightarrow> Inl e | Inr ox \<Rightarrow>
      case py_getitem pt ''y'' of Inl e \<Rightarrow> Inl e | Inr vy \<Rightarrow>
      case py_float vy of Inl e \<Rightarrow> Inl e | Inr y \<Rightarrow>
      case py_float (PInt offset_y) of Inl e \<Rightarrow> Inl e | Inr oy \<Rightarrow>
        Inr (x * scale + ox, y * scale + oy))"

text \<open>The loop over the points (lines 52 to 56): \<open>coords\<close> is the list built so far.\<close>

fun convert_points ::
  "real \<Rightarrow> int \<Rightarrow> int \<Rightarrow> pyval list \<Rightarrow> (real \<times> real) list \<Rightarrow> py_error + (real \<times> real) list" where
  "convert_points scale offset_x offset_y [] coords = Inr coords"
| "convert_points scale offset_x offset_y (pt # pts) coords =
     (case convert_point scale offset_x offset_y pt of Inl e \<Rightarrow> Inl e | Inr xy \<Rightarrow>
        convert_points scale offset_x offset_y pts (coords @ [xy]))"

text \<open>The loop over consecutive points (lines 59 and 60).\<close>

definition draw_segments :: "line_cover \<Rightarrow> int \<Rightarrow> (real \<times> real) list \<Rightarrow> image \<Rightarrow> image" where
  "draw_segments cover line_width coords img =
     fold (\<lambda>i im. draw_line cover im (coords ! i) (coords ! (i + 1)) 0 line_width)
          [0..<length coords - 1] img"

text \<open>The loop over the strokes (lines 46 to 60).\<close>

fun draw_strokes ::
  "line_cover \<Rightarrow> real \<Rightarrow> int \<Rightarrow> int \<Rightarrow> int \<Rightarrow> pyval list \<Rightarrow> image \<Rightarrow> py_error + image" where
  "draw_strokes cover scale offset_x offset_y line_width [] img = Inr img"
| "draw_strokes cover scale offset_x offset_y line_width (stroke # rest) img =
     (case py_get stroke ''points'' (PList []) of Inl e \<Rightarrow> Inl e | Inr points \<Rightarrow>
      case py_len points of Inl e \<Rightarrow> Inl e | Inr n \<Rightarrow>
        if n < 2 then draw_strokes cover scale offset_x offset_y line_width rest img
        else
          (case py_iter points of Inl e \<Rightarrow> Inl e | Inr pts \<Rightarrow>
           case convert_points scale offset_x offset_y pts [] of Inl e \<Rightarrow> Inl e | Inr coords \<Rightarrow>
             draw_strokes cover scale offset_x offset_y line_width rest
               (draw_segments cover line_width coords img)))"

definition default_canvas :: pyval where
  "default_canvas = PDict [(''width'', PInt 400), (''height'', PInt 400)]"

definition strokes_to_image ::
  "line_cover \<Rightarrow> pydict \<Rightarrow> int \<Rightarrow> int \<Rightarrow> int \<Rightarrow> py_error + image" where
  "strokes_to_image cover stroke_data sz line_width padding =
     (case Image_new sz sz 255 of Inl e \<Rightarrow> Inl e | Inr img \<Rightarrow>
      let strokes = dict_get stroke_data ''strokes'' (PList []);
          canvas = dict_get stroke_data ''canvas'' default_canvas
      in
      case py_get canvas ''width'' (PInt 400) of Inl e \<Rightarrow> Inl e | Inr canvas_width \<Rightarrow>
      case py_get canvas ''height'' (PInt 400) of Inl e \<Rightarrow> Inl e | Inr canvas_height \<Rightarrow>
      case py_max canvas_width canvas_height of Inl e \<Rightarrow> Inl e | Inr larger \<Rightarrow>
      case int_truediv (sz - 2 * padding) larger of Inl e \<Rightarrow> Inl e | Inr scale \<Rightarrow>
      case py_iter strokes of Inl e \<Rightarrow> Inl e | Inr ss \<Rightarrow>
        draw_strokes cover scale padding padding line_width ss img)"

section \<open>image_to_tensor\<close>

text \<open>Lines 78, 80 and 82, one definition each.\<close>

definition astype_float_div255 :: "image \<Rightarrow> real list list" where
  "astype_float_div255 img = map (map (\<lambda>p. real (unat p) / 255)) img"

definition invert :: "real list list \<Rightarrow> real list list" where
  "invert img = map (map (\<lambda>v. 1 - v)) img"

definition expand_dims0 :: "real list list \<Rightarrow> tensor" where
  "expand_dims0 img = [img]"

definition image_to_tensor :: "image \<Rightarrow> tensor" where
  "image_to_tensor img = expand_dims0 (invert (astype_float_div255 img))"

section \<open>augment_image\<close>

text \<open>
  \<^verbatim>\<open>np.random\<close> is one global generator. Its state is a value of type \<open>'g\<close> that every
  function using it takes and returns. What the generator draws and what the imaging
  library's rotation and bilinear resize compute are parameters of the model, collected
  in one record; each is a function of its arguments, and those that can raise return
  an error or a value.
\<close>

record 'g library =
  np_random_seed :: "int \<Rightarrow> py_error + 'g"
  np_random_uniform :: "real \<Rightarrow> real \<Rightarrow> 'g \<Rightarrow> real \<times> 'g"
  np_random_normal :: "real \<Rightarrow> real \<Rightarrow> nat \<times> nat \<Rightarrow> 'g \<Rightarrow> (nat \<Rightarrow> nat \<Rightarrow> real) \<times> 'g"
  Image_rotate :: "image \<Rightarrow> real \<Rightarrow> 8 word \<Rightarrow> py_error + image"
  Image_resize :: "image \<Rightarrow> int \<Rightarrow> int \<Rightarrow> py_error + image"

text \<open>\<^verbatim>\<open>int(r)\<close> on a float and \<^verbatim>\<open>astype(np.int32)\<close>: truncation towards zero.\<close>

definition py_trunc :: "real \<Rightarrow> int" where
  "py_trunc r = (if 0 \<le> r then \<lfloor>r\<rfloor> else \<lceil>r\<rceil>)"

definition image_width :: "image \<Rightarrow> nat" where
  "image_width im = (case im of [] \<Rightarrow> 0 | row # _ \<Rightarrow> length row)"

definition pixel_at :: "image \<Rightarrow> int \<Rightarrow> int \<Rightarrow> 8 word option" where
  "pixel_at im x y =
     (if 0 \<le> y \<and> nat y < length im \<and> 0 \<le> x \<and> nat x < length (im ! nat y)
      then Some (im ! nat y ! nat x) else None)"

text \<open>\<^verbatim>\<open>crop((left, upper, right, lower))\<close>: positions outside the image read as 0.\<close>

definition crop :: "image \<Rightarrow> int \<Rightarrow> int \<Rightarrow> int \<Rightarrow> int \<Rightarrow> image" where
  "crop im left upper right lower =
     map (\<lambda>y. map (\<lambda>x. case pixel_at im (left + int x) (upper + int y) of
                          None \<Rightarrow> 0 | Some v \<Rightarrow> v)
                 [0..<nat (right - left)])
         [0..<nat (lower - upper)]"

text \<open>\<^verbatim>\<open>base.paste(im, (ox, oy))\<close>.\<close>

definition paste :: "image \<Rightarrow> image \<Rightarrow> int \<Rightarrow> int \<Rightarrow> image" where
  "paste base im ox oy =
     map (\<lambda>y. map (\<lambda>x. case pixel_at im (int x - ox) (int y - oy) of
                          None \<Rightarrow> base ! y ! x | Some v \<Rightarrow> v)
                 [0..<length (base ! y)])
         [0..<length base]"

text \<open>Lines 126 and 127: the noise truncated to integers, added, clipped to 0..255 and
  stored as 8-bit values.\<close>

definition add_noise_clip :: "image \<Rightarrow> (nat \<Rightarrow> nat \<Rightarrow> real) \<Rightarrow> image" where
  "add_noise_clip result noise =
     map (\<lambda>i. map (\<lambda>j. word_of_int
                          (min 255 (max 0 (int (unat (result ! i ! j)) + py_trunc (noise i j)))))
                 [0..<length (result ! i)])
         [0..<length result]"

text \<open>Lines 110 to 121: crop or pad back to the original size.\<close>

definition crop_or_pad :: "image \<Rightarrow> int \<Rightarrow> int \<Rightarrow> py_error + image" where
  "crop_or_pad pil_img new_size orig_size =
     (if new_size > orig_size then
        let left = (new_size - orig_size) div 2
        in Inr (crop pil_img left left (left + orig_size) (left + orig_size))
      else if new_size < orig_size then
        (case Image_new orig_size orig_size 255 of Inl e \<Rightarrow> Inl e | Inr new_img \<Rightarrow>
           let offset = (orig_size - new_size) div 2
           in Inr (paste new_img pil_img offset offset))
      else Inr pil_img)"

text \<open>Lines 99 to 129, from the generator state \<open>g\<close> held when the first number is drawn.
  An image object and its array are the same value here, so \<^verbatim>\<open>Image.fromarray\<close> and
  \<^verbatim>\<open>np.array\<close> do not appear.\<close>

definition augment_from :: "'g library \<Rightarrow> image \<Rightarrow> 'g \<Rightarrow> (py_error + image) \<times> 'g" where
  "augment_from lib img g =
     (let (angle, g1) = np_random_uniform lib (- 15) 15 g in
      case Image_rotate lib img angle 255 of Inl e \<Rightarrow> (Inl e, g1) | Inr rotated \<Rightarrow>
      let (scale, g2) = np_random_uniform lib (9 / 10) (11 / 10) g1;
          new_size = py_trunc (real (image_width rotated) * scale)
      in
      case Image_resize lib rotated new_size new_size of Inl e \<Rightarrow> (Inl e, g2) | Inr resized \<Rightarrow>
      case crop_or_pad resized new_size (int (length img)) of Inl e \<Rightarrow> (Inl e, g2) | Inr result \<Rightarrow>
      let (noise, g3) = np_random_normal lib 0 2 (length result, image_width result) g2
      in (Inr (add_noise_clip result noise), g3))"

text \<open>Lines 96 and 97, then the rest: a seed that is not \<^verbatim>\<open>None\<close> resets the generator.\<close>

definition augment_image ::
  "'g library \<Rightarrow> image \<Rightarrow> int option \<Rightarrow> 'g \<Rightarrow> (py_error + image) \<times> 'g" where
  "augment_image lib img seed g =
     (case seed of
        None \<Rightarrow> augment_from lib img g
      | Some s \<Rightarrow>
          (case np_random_seed lib s of
             Inl e \<Rightarrow> (Inl e, g)
           | Inr g0 \<Rightarrow> augment_from lib img g0))"

section \<open>batch_preprocess\<close>

text \<open>\<^verbatim>\<open>np.stack\<close>: an empty sequence and arrays of different shapes raise
  \<^verbatim>\<open>ValueError\<close>.\<close>

definition np_stack :: "tensor list \<Rightarrow> py_error + tensor list" where
  "np_stack arrays =
     (if arrays = [] then Inl ValueError
      else if list_all (\<lambda>t. map (map length) t = map (map length) (hd arrays)) arrays
      then Inr arrays else Inl ValueError)"

text \<open>The loop of lines 144 to 149: \<open>images\<close> is the list built so far. The rasterizer is
  called with its default line width 2 and padding 4, the augmentation with no seed.\<close>

fun batch_loop ::
  "'g library \<Rightarrow> line_cover \<Rightarrow> int \<Rightarrow> bool \<Rightarrow> pydict list \<Rightarrow> tensor list \<Rightarrow> 'g
   \<Rightarrow> (py_error + tensor list) \<times> 'g" where
  "batch_loop lib cover sz augment [] images g = (Inr images, g)"
| "batch_loop lib cover sz augment (data # rest) images g =
     (case strokes_to_image cover data sz 2 4 of
        Inl e \<Rightarrow> (Inl e, g)
      | Inr img \<Rightarrow>
          (case (if augment then augment_image lib img None g else (Inr img, g)) of
             (Inl e, g') \<Rightarrow> (Inl e, g')
           | (Inr img', g') \<Rightarrow>
               batch_loop lib cover sz augment rest (images @ [image_to_tensor img']) g'))"

definition batch_preprocess ::
  "'g library \<Rightarrow> line_cover \<Rightarrow> pydict list \<Rightarrow> int \<Rightarrow> bool \<Rightarrow> 'g
   \<Rightarrow> (py_error + tensor list) \<times> 'g" where
  "batch_preprocess lib cover stroke_data_list sz augment g =
     (case batch_loop lib cover sz augment stroke_data_list [] g of
        (Inl e, g') \<Rightarrow> (Inl e, g')
      | (Inr images, g') \<Rightarrow> (np_stack images, g'))"

section \<open>Drawings as the data model has them\<close>

text \<open>
  A well-typed input: points with numeric \<open>x\<close> and \<open>y\<close>, strokes with a list of points,
  a canvas with numeric width and height. A number of a JSON document is an integer of
  any size or a float. The \<open>meta\<close> fields hold the other keys of each JSON object
  (pressure, timestamp, color, width, shape, duration). The encoders give the
  dictionaries \<^verbatim>\<open>json.loads\<close> returns for such an input.
\<close>

datatype number = IntNum int | FloatNum real

fun value_of :: "number \<Rightarrow> real" where
  "value_of (IntNum n) = real_of_int n"
| "value_of (FloatNum r) = r"

fun number_to_py :: "number \<Rightarrow> pyval" where
  "number_to_py (IntNum n) = PInt n"
| "number_to_py (FloatNum r) = PFloat r"

record point =
  pt_x :: number
  pt_y :: number
  pt_meta :: pydict

record stroke =
  points_of :: "point list"
  stroke_meta :: pydict

record drawing =
  strokes_of :: "stroke list"
  canvas_width :: number
  canvas_height :: number
  drawing_meta :: pydict



text \<open>The top-level dictionary: any value under \<open>strokes\<close>, a numeric canvas, and the
  other keys.\<close>

definition stroke_data_of :: "pyval \<Rightarrow> number \<Rightarrow> number \<Rightarrow> pydict \<Rightarrow> pydict" where
  "stroke_data_of strokes w h meta =
     (''strokes'', strokes)
     # (''canvas'', PDict [(''width'', number_to_py w), (''height'', number_to_py h)])
     # meta"












section \<open>The rasterizer in the words of the specification\<close>

text \<open>
  Section 4.1 of the specification, step by step, for comparison with
  \<open>strokes_to_image\<close>: a blank canvas, one scale for both axes, every point mapped
  without clamping, and segments between consecutive mapped points of every stroke that
  has at least two points.
\<close>

definition blank :: "int \<Rightarrow> image" where
  "blank sz = replicate (nat sz) (replicate (nat sz) 255)"





section \<open>Shapes and short strokes\<close>




section \<open>A line primitive for the examples\<close>

text \<open>
  The closed examples below need some line primitive: this one covers the pixels that
  hold the two end points of a segment. Every theorem that is not an example holds for
  all line primitives.
\<close>

definition endpoint_cover :: line_cover where
  "endpoint_cover p q width x y =
     ((int x = \<lfloor>fst p\<rfloor> \<and> int y = \<lfloor>snd p\<rfloor>) \<or> (int x = \<lfloor>fst q\<rfloor> \<and> int y = \<lfloor>snd q\<rfloor>))"

text \<open>
  A generator and image transformations for the closed examples: the state is a counter,
  the rotation returns its argument and the resize takes the nearest pixel.
\<close>

definition sample_library :: "nat library" where
  "sample_library =
     \<lparr>np_random_seed = (\<lambda>s. if s < 0 \<or> 2 ^ 32 \<le> s then Inl ValueError else Inr (nat s)),
      np_random_uniform = (\<lambda>lo hi g. (lo + (hi - lo) * real (g mod 4) / 4, Suc g)),
      np_random_normal =
        (\<lambda>mu sigma shape g. (\<lambda>i j. mu + sigma * (real ((g + i + j) mod 5) - 2), Suc g)),
      Image_rotate = (\<lambda>im angle fill. Inr im),
      Image_resize =
        (\<lambda>im w h.
           if w \<le> 0 \<or> h \<le> 0 then Inl ValueError
           else Inr (map (\<lambda>y. map (\<lambda>x. im ! (y * length im div nat h)
                                            ! (x * image_width im div nat w))
                                [0..<nat w])
                         [0..<nat h]))\<rparr>"

section \<open>Tensors and layers of the network library\<close>

text \<open>
  The classifier of \<^verbatim>\<open>training/model.py\<close> is built from layers of the network
  library. A tensor is its shape and its values by index; the values are real numbers.
  A layer is a record of its configuration and its tensors, and its forward function
  returns the error the library raises for an input it does not accept. The layers are
  modelled for the ranks the classifier feeds them (batches of rank 4, rank 2 after
  flattening); an input of another rank is outside the model and is answered with an
  error.
\<close>

datatype torch_tensor = Tensor (t_shape: "nat list") (t_at: "nat list \<Rightarrow> real")

text \<open>What the library's initialisers store in a new tensor, by the tensor's name.\<close>

type_synonym initialiser = "string \<Rightarrow> nat list \<Rightarrow> real"

subsection \<open>Conv2d (without bias)\<close>

record nn_conv2d =
  conv_in :: nat
  conv_out :: nat
  conv_kernel :: nat
  conv_stride :: nat
  conv_padding :: nat
  conv_groups :: nat
  conv_weight :: torch_tensor

definition Conv2d ::
  "initialiser \<Rightarrow> string \<Rightarrow> nat \<Rightarrow> nat \<Rightarrow> nat \<Rightarrow> nat \<Rightarrow> nat \<Rightarrow> nat \<Rightarrow> nn_conv2d" where
  "Conv2d init name cin cout k s p g =
     \<lparr>conv_in = cin, conv_out = cout, conv_kernel = k, conv_stride = s, conv_padding = p,
      conv_groups = g,
      conv_weight = Tensor [cout, cin div g, k, k] (init (name @ ''.weight''))\<rparr>"

definition conv_size :: "nn_conv2d \<Rightarrow> nat \<Rightarrow> nat" where
  "conv_size cv n = (n + 2 * conv_padding cv - conv_kernel cv) div conv_stride cv + 1"

text \<open>The input value at a position of the zero-padded input.\<close>

definition padded_at :: "torch_tensor \<Rightarrow> nat \<Rightarrow> nat \<Rightarrow> nat \<Rightarrow> nat \<Rightarrow> nat \<Rightarrow> real" where
  "padded_at x p n c i j =
     (if p \<le> i \<and> i - p < t_shape x ! 2 \<and> p \<le> j \<and> j - p < t_shape x ! 3
      then t_at x [n, c, i - p, j - p] else 0)"

definition conv_value :: "nn_conv2d \<Rightarrow> torch_tensor \<Rightarrow> nat \<Rightarrow> nat \<Rightarrow> nat \<Rightarrow> nat \<Rightarrow> real" where
  "conv_value cv x n out i j =
     (let per_group_in = conv_in cv div conv_groups cv;
          per_group_out = conv_out cv div conv_groups cv;
          first = (out div per_group_out) * per_group_in
      in sum_list (map (\<lambda>c. sum_list (map (\<lambda>di. sum_list (map (\<lambda>dj.
              t_at (conv_weight cv) [out, c, di, dj]
              * padded_at x (conv_padding cv) n (first + c)
                  (i * conv_stride cv + di) (j * conv_stride cv + dj))
            [0..<conv_kernel cv])) [0..<conv_kernel cv])) [0..<per_group_in]))"

definition conv2d_forward :: "nn_conv2d \<Rightarrow> torch_tensor \<Rightarrow> py_error + torch_tensor" where
  "conv2d_forward cv x =
     (if length (t_shape x) \<noteq> 4 then Inl RuntimeError
      else if t_shape x ! 1 \<noteq> conv_in cv then Inl RuntimeError
      else if t_shape x ! 2 + 2 * conv_padding cv < conv_kernel cv
              \<or> t_shape x ! 3 + 2 * conv_padding cv < conv_kernel cv then Inl RuntimeError
      else Inr (Tensor [t_shape x ! 0, conv_out cv,
                        conv_size cv (t_shape x ! 2), conv_size cv (t_shape x ! 3)]
                  (\<lambda>idx. conv_value cv x (idx ! 0) (idx ! 1) (idx ! 2) (idx ! 3))))"

subsection \<open>BatchNorm2d\<close>

record nn_batchnorm2d =
  bn_features :: nat
  bn_weight :: torch_tensor
  bn_bias :: torch_tensor
  bn_running_mean :: torch_tensor
  bn_running_var :: torch_tensor

definition BatchNorm2d :: "initialiser \<Rightarrow> string \<Rightarrow> nat \<Rightarrow> nn_batchnorm2d" where
  "BatchNorm2d init name n =
     \<lparr>bn_features = n,
      bn_weight = Tensor [n] (init (name @ ''.weight'')),
      bn_bias = Tensor [n] (init (name @ ''.bias'')),
      bn_running_mean = Tensor [n] (init (name @ ''.running_mean'')),
      bn_running_var = Tensor [n] (init (name @ ''.running_var''))\<rparr>"

definition bn_eps :: real where
  "bn_eps = 1 / 100000"

text \<open>The sum of \<open>f\<close> over the positions of one channel of a batch.\<close>

definition channel_sum :: "torch_tensor \<Rightarrow> nat \<Rightarrow> (real \<Rightarrow> real) \<Rightarrow> real" where
  "channel_sum x c f =
     sum_list (map (\<lambda>n. sum_list (map (\<lambda>i. sum_list (map (\<lambda>j. f (t_at x [n, c, i, j]))
       [0..<t_shape x ! 3])) [0..<t_shape x ! 2])) [0..<t_shape x ! 0])"

definition channel_count :: "torch_tensor \<Rightarrow> nat" where
  "channel_count x = t_shape x ! 0 * t_shape x ! 2 * t_shape x ! 3"

definition batch_mean :: "torch_tensor \<Rightarrow> nat \<Rightarrow> real" where
  "batch_mean x c = channel_sum x c (\<lambda>v. v) / real (channel_count x)"

definition batch_var :: "torch_tensor \<Rightarrow> nat \<Rightarrow> real" where
  "batch_var x c = channel_sum x c (\<lambda>v. (v - batch_mean x c) ^ 2) / real (channel_count x)"

text \<open>
  In training mode the layer normalises with the statistics of the batch and refuses a
  batch with one value per channel; in evaluation mode it normalises with its running
  statistics. The update of the running statistics in training mode does not change the
  output of the call and is not modelled; the counter \<^verbatim>\<open>num_batches_tracked\<close>, which
  no forward call of this classifier reads, is not a field of the record.
\<close>

definition batchnorm2d_forward ::
  "bool \<Rightarrow> nn_batchnorm2d \<Rightarrow> torch_tensor \<Rightarrow> py_error + torch_tensor" where
  "batchnorm2d_forward train bn x =
     (if length (t_shape x) \<noteq> 4 then Inl ValueError
      else if train \<and> channel_count x = 1 then Inl ValueError
      else if t_shape x ! 1 \<noteq> bn_features bn then Inl RuntimeError
      else Inr (Tensor (t_shape x)
                  (\<lambda>idx. let c = idx ! 1;
                              mean = (if train then batch_mean x c
                                      else t_at (bn_running_mean bn) [c]);
                              var = (if train then batch_var x c
                                     else t_at (bn_running_var bn) [c])
                          in (t_at x idx - mean) / sqrt (var + bn_eps) * t_at (bn_weight bn) [c]
                             + t_at (bn_bias bn) [c])))"

subsection \<open>ReLU, pooling, flattening, dropout and Linear\<close>

definition relu :: "torch_tensor \<Rightarrow> torch_tensor" where
  "relu x = Tensor (t_shape x) (\<lambda>idx. max 0 (t_at x idx))"

text \<open>\<^verbatim>\<open>AdaptiveAvgPool2d(1)\<close>: the mean of every channel of every example.\<close>

definition adaptive_avg_pool2d_1 :: "torch_tensor \<Rightarrow> py_error + torch_tensor" where
  "adaptive_avg_pool2d_1 x =
     (if length (t_shape x) \<noteq> 4 then Inl RuntimeError
      else if t_shape x ! 2 = 0 \<or> t_shape x ! 3 = 0 then Inl RuntimeError
      else Inr (Tensor [t_shape x ! 0, t_shape x ! 1, 1, 1]
                  (\<lambda>idx. sum_list (map (\<lambda>i. sum_list (map (\<lambda>j. t_at x [idx ! 0, idx ! 1, i, j])
                              [0..<t_shape x ! 3])) [0..<t_shape x ! 2])
                          / real (t_shape x ! 2 * t_shape x ! 3))))"

text \<open>\<^verbatim>\<open>torch.flatten(x, 1)\<close> on a batch of rank 4.\<close>

definition flatten1 :: "torch_tensor \<Rightarrow> py_error + torch_tensor" where
  "flatten1 x =
     (if length (t_shape x) \<noteq> 4 then Inl RuntimeError
      else
        let C = t_shape x ! 1; H = t_shape x ! 2; W = t_shape x ! 3
        in Inr (Tensor [t_shape x ! 0, C * H * W]
                  (\<lambda>idx. t_at x [idx ! 0, idx ! 1 div (H * W), (idx ! 1 div W) mod H,
                                  idx ! 1 mod W])))"

text \<open>
  The generator of the network library has a state of type \<open>'t\<close>; \<open>torch_bernoulli\<close>
  draws the mask that dropout keeps, from a keep probability and a shape.
\<close>

record 't torch_random =
  torch_bernoulli :: "real \<Rightarrow> nat list \<Rightarrow> 't \<Rightarrow> (nat list \<Rightarrow> bool) \<times> 't"

text \<open>\<^verbatim>\<open>Dropout(p)\<close>: the identity in evaluation mode; in training mode the kept values
  are scaled by \<open>1 / (1 - p)\<close> and the others are 0.\<close>

definition dropout_forward ::
  "'t torch_random \<Rightarrow> real \<Rightarrow> bool \<Rightarrow> torch_tensor \<Rightarrow> 't \<Rightarrow> torch_tensor \<times> 't" where
  "dropout_forward lib p train x tg =
     (if train then
        let (keep, tg') = torch_bernoulli lib (1 - p) (t_shape x) tg
        in (Tensor (t_shape x) (\<lambda>idx. if keep idx then t_at x idx / (1 - p) else 0), tg')
      else (x, tg))"

record nn_linear =
  lin_in :: nat
  lin_out :: nat
  lin_weight :: torch_tensor
  lin_bias :: torch_tensor

definition Linear :: "initialiser \<Rightarrow> string \<Rightarrow> nat \<Rightarrow> nat \<Rightarrow> nn_linear" where
  "Linear init name n_in n_out =
     \<lparr>lin_in = n_in, lin_out = n_out,
      lin_weight = Tensor [n_out, n_in] (init (name @ ''.weight'')),
      lin_bias = Tensor [n_out] (init (name @ ''.bias''))\<rparr>"

text \<open>The affine map of the layer on the last dimension.\<close>

definition linear_apply :: "nn_linear \<Rightarrow> torch_tensor \<Rightarrow> torch_tensor" where
  "linear_apply l x =
     Tensor (butlast (t_shape x) @ [lin_out l])
       (\<lambda>idx. sum_list (map (\<lambda>k. t_at x (butlast idx @ [k]) * t_at (lin_weight l) [last idx, k])
                          [0..<lin_in l])
               + t_at (lin_bias l) [last idx])"

definition linear_forward :: "nn_linear \<Rightarrow> torch_tensor \<Rightarrow> py_error + torch_tensor" where
  "linear_forward l x =
     (if t_shape x = [] \<or> last (t_shape x) \<noteq> lin_in l then Inl RuntimeError
      else Inr (linear_apply l x))"

section \<open>DepthwiseSeparableConv\<close>

record dsconv =
  depthwise :: nn_conv2d
  pointwise :: nn_conv2d
  bn1 :: nn_batchnorm2d
  bn2 :: nn_batchnorm2d

text \<open>Lines 14 to 24.\<close>

definition DepthwiseSeparableConv :: "initialiser \<Rightarrow> string \<Rightarrow> nat \<Rightarrow> nat \<Rightarrow> nat \<Rightarrow> dsconv" where
  "DepthwiseSeparableConv init name in_channels out_channels strd =
     \<lparr>depthwise = Conv2d init (name @ ''.depthwise'') in_channels in_channels 3 strd 1 in_channels,
      pointwise = Conv2d init (name @ ''.pointwise'') in_channels out_channels 1 1 0 1,
      bn1 = BatchNorm2d init (name @ ''.bn1'') in_channels,
      bn2 = BatchNorm2d init (name @ ''.bn2'') out_channels\<rparr>"

text \<open>Lines 26 to 33.\<close>

definition dsconv_forward :: "bool \<Rightarrow> dsconv \<Rightarrow> torch_tensor \<Rightarrow> py_error + torch_tensor" where
  "dsconv_forward train b x =
     (case conv2d_forward (depthwise b) x of Inl e \<Rightarrow> Inl e | Inr x1 \<Rightarrow>
      case batchnorm2d_forward train (bn1 b) x1 of Inl e \<Rightarrow> Inl e | Inr x2 \<Rightarrow>
      case conv2d_forward (pointwise b) (relu x2) of Inl e \<Rightarrow> Inl e | Inr x4 \<Rightarrow>
      case batchnorm2d_forward train (bn2 b) x4 of Inl e \<Rightarrow> Inl e | Inr x5 \<Rightarrow>
        Inr (relu x5))"

section \<open>DoodleNet\<close>

record doodlenet =
  conv1_conv :: nn_conv2d
  conv1_bn :: nn_batchnorm2d
  features :: "dsconv list"
  classifier_dropout :: real
  classifier_linear :: nn_linear
  training :: bool

text \<open>Lines 43 to 68. A new module is in training mode.\<close>

definition DoodleNet :: "initialiser \<Rightarrow> nat \<Rightarrow> doodlenet" where
  "DoodleNet init num_classes =
     \<lparr>conv1_conv = Conv2d init ''conv1.0'' 1 32 3 2 1 1,
      conv1_bn = BatchNorm2d init ''conv1.1'' 32,
      features =
        [DepthwiseSeparableConv init ''features.0'' 32 64 1,
         DepthwiseSeparableConv init ''features.1'' 64 128 2,
         DepthwiseSeparableConv init ''features.2'' 128 128 1,
         DepthwiseSeparableConv init ''features.3'' 128 256 2,
         DepthwiseSeparableConv init ''features.4'' 256 256 1,
         DepthwiseSeparableConv init ''features.5'' 256 512 2],
      classifier_dropout = 2 / 10,
      classifier_linear = Linear init ''classifier.1'' 512 num_classes,
      training = True\<rparr>"

text \<open>\<^verbatim>\<open>nn.Sequential\<close> over the blocks.\<close>

fun features_forward :: "bool \<Rightarrow> dsconv list \<Rightarrow> torch_tensor \<Rightarrow> py_error + torch_tensor" where
  "features_forward train [] x = Inr x"
| "features_forward train (b # bs) x =
     (case dsconv_forward train b x of Inl e \<Rightarrow> Inl e | Inr y \<Rightarrow>
        features_forward train bs y)"

text \<open>Lines 71 to 74: everything before the classifier head.\<close>

definition pooled_features :: "doodlenet \<Rightarrow> torch_tensor \<Rightarrow> py_error + torch_tensor" where
  "pooled_features m x =
     (case conv2d_forward (conv1_conv m) x of Inl e \<Rightarrow> Inl e | Inr x1 \<Rightarrow>
      case batchnorm2d_forward (training m) (conv1_bn m) x1 of Inl e \<Rightarrow> Inl e | Inr x2 \<Rightarrow>
      case features_forward (training m) (features m) (relu x2) of Inl e \<Rightarrow> Inl e | Inr x3 \<Rightarrow>
      case adaptive_avg_pool2d_1 x3 of Inl e \<Rightarrow> Inl e | Inr x4 \<Rightarrow>
        flatten1 x4)"

text \<open>Lines 70 to 76.\<close>

definition forward ::
  "'t torch_random \<Rightarrow> doodlenet \<Rightarrow> torch_tensor \<Rightarrow> 't \<Rightarrow> (py_error + torch_tensor) \<times> 't" where
  "forward lib m x tg =
     (case pooled_features m x of
        Inl e \<Rightarrow> (Inl e, tg)
      | Inr x5 \<Rightarrow>
          let (x6, tg') = dropout_forward lib (classifier_dropout m) (training m) x5 tg
          in (linear_forward (classifier_linear m) x6, tg'))"

text \<open>\<^verbatim>\<open>F.softmax(logits, dim=1)\<close> on a tensor of rank 2.\<close>

definition softmax_dim1 :: "torch_tensor \<Rightarrow> py_error + torch_tensor" where
  "softmax_dim1 logits =
     (if length (t_shape logits) \<noteq> 2 then Inl IndexError
      else Inr (Tensor (t_shape logits)
                  (\<lambda>idx. exp (t_at logits [idx ! 0, idx ! 1])
                          / sum_list (map (\<lambda>k. exp (t_at logits [idx ! 0, k]))
                                          [0..<t_shape logits ! 1]))))"

text \<open>\<^verbatim>\<open>probs.max(1)\<close> on a tensor of rank 2: for every row its greatest value and the
  first index that holds it.\<close>

definition row_values :: "torch_tensor \<Rightarrow> nat \<Rightarrow> real list" where
  "row_values probs n = map (\<lambda>k. t_at probs [n, k]) [0..<t_shape probs ! 1]"

definition max_dim1 :: "torch_tensor \<Rightarrow> py_error + real list \<times> nat list" where
  "max_dim1 probs =
     (if length (t_shape probs) \<noteq> 2 \<or> t_shape probs ! 1 = 0 then Inl IndexError
      else
        let values = map (\<lambda>n. fold max (row_values probs n) (hd (row_values probs n)))
                         [0..<t_shape probs ! 0];
            indices = map (\<lambda>n. length (takeWhile (\<lambda>v. v \<noteq> values ! n) (row_values probs n)))
                          [0..<t_shape probs ! 0]
        in Inr (values, indices))"

text \<open>Lines 78 to 84. \<^verbatim>\<open>torch.no_grad()\<close> changes no value that is computed.\<close>

definition predict ::
  "'t torch_random \<Rightarrow> doodlenet \<Rightarrow> torch_tensor \<Rightarrow> 't
   \<Rightarrow> (py_error + nat list \<times> real list) \<times> 't" where
  "predict lib m x tg =
     (case forward lib m x tg of
        (Inl e, tg') \<Rightarrow> (Inl e, tg')
      | (Inr logits, tg') \<Rightarrow>
          (case softmax_dim1 logits of
             Inl e \<Rightarrow> (Inl e, tg')
           | Inr probs \<Rightarrow>
               (case max_dim1 probs of
                  Inl e \<Rightarrow> (Inl e, tg')
                | Inr (confidence, predicted) \<Rightarrow> (Inr (predicted, confidence), tg'))))"

section \<open>create_model and the weight sets\<close>

text \<open>
  A weight set is a list of named tensors. The declared parameters of a classifier are
  its weights, biases and running statistics under the names the module tree gives
  them; the counters of the normalisation layers are expected names too.
\<close>

type_synonym state_dict = "(string \<times> torch_tensor) list"

text \<open>\<^verbatim>\<open>str(n)\<close>: the decimal digits of a number.\<close>

fun string_of_nat :: "nat \<Rightarrow> string" where
  "string_of_nat n =
     (if n < 10 then [''0123456789'' ! n]
      else string_of_nat (n div 10) @ [''0123456789'' ! (n mod 10)])"

declare string_of_nat.simps [simp del]

definition conv2d_params :: "string \<Rightarrow> nn_conv2d \<Rightarrow> state_dict" where
  "conv2d_params name cv = [(name @ ''.weight'', conv_weight cv)]"

definition batchnorm2d_params :: "string \<Rightarrow> nn_batchnorm2d \<Rightarrow> state_dict" where
  "batchnorm2d_params name bn =
     [(name @ ''.weight'', bn_weight bn), (name @ ''.bias'', bn_bias bn),
      (name @ ''.running_mean'', bn_running_mean bn), (name @ ''.running_var'', bn_running_var bn)]"

definition linear_params :: "string \<Rightarrow> nn_linear \<Rightarrow> state_dict" where
  "linear_params name l = [(name @ ''.weight'', lin_weight l), (name @ ''.bias'', lin_bias l)]"

definition dsconv_params :: "string \<Rightarrow> dsconv \<Rightarrow> state_dict" where
  "dsconv_params name b =
     conv2d_params (name @ ''.depthwise'') (depthwise b)
     @ conv2d_params (name @ ''.pointwise'') (pointwise b)
     @ batchnorm2d_params (name @ ''.bn1'') (bn1 b)
     @ batchnorm2d_params (name @ ''.bn2'') (bn2 b)"

definition declared_params :: "doodlenet \<Rightarrow> state_dict" where
  "declared_params m =
     conv2d_params ''conv1.0'' (conv1_conv m)
     @ batchnorm2d_params ''conv1.1'' (conv1_bn m)
     @ concat (map (\<lambda>i. dsconv_params (''features.'' @ string_of_nat i) (features m ! i))
                   [0..<length (features m)])
     @ linear_params ''classifier.1'' (classifier_linear m)"

definition counter_keys :: "doodlenet \<Rightarrow> string list" where
  "counter_keys m =
     ''conv1.1.num_batches_tracked''
     # concat (map (\<lambda>i. [''features.'' @ string_of_nat i @ ''.bn1.num_batches_tracked'',
                          ''features.'' @ string_of_nat i @ ''.bn2.num_batches_tracked''])
                   [0..<length (features m)])"

definition missing_keys :: "doodlenet \<Rightarrow> state_dict \<Rightarrow> string list" where
  "missing_keys m sd = filter (\<lambda>k. map_of sd k = None) (map fst (declared_params m))"

definition unexpected_keys :: "doodlenet \<Rightarrow> state_dict \<Rightarrow> string list" where
  "unexpected_keys m sd =
     filter (\<lambda>k. k \<notin> set (map fst (declared_params m)) \<and> k \<notin> set (counter_keys m))
            (map fst sd)"

definition size_mismatches :: "doodlenet \<Rightarrow> state_dict \<Rightarrow> string list" where
  "size_mismatches m sd =
     map fst (filter (\<lambda>kt. case map_of sd (fst kt) of
                              None \<Rightarrow> False
                            | Some t \<Rightarrow> t_shape t \<noteq> t_shape (snd kt))
                     (declared_params m))"

text \<open>A weight set that does not match the declared parameters of the classifier.\<close>

definition structure_mismatch :: "doodlenet \<Rightarrow> state_dict \<Rightarrow> bool" where
  "structure_mismatch m sd =
     (missing_keys m sd \<noteq> [] \<or> unexpected_keys m sd \<noteq> [] \<or> size_mismatches m sd \<noteq> [])"

text \<open>The copy of one tensor: only a tensor of the declared shape is copied.\<close>

definition load_tensor :: "state_dict \<Rightarrow> string \<Rightarrow> torch_tensor \<Rightarrow> torch_tensor" where
  "load_tensor sd key old =
     (case map_of sd key of
        None \<Rightarrow> old
      | Some t \<Rightarrow> if t_shape t = t_shape old then t else old)"

definition load_conv2d :: "state_dict \<Rightarrow> string \<Rightarrow> nn_conv2d \<Rightarrow> nn_conv2d" where
  "load_conv2d sd name cv =
     cv\<lparr>conv_weight := load_tensor sd (name @ ''.weight'') (conv_weight cv)\<rparr>"

definition load_batchnorm2d :: "state_dict \<Rightarrow> string \<Rightarrow> nn_batchnorm2d \<Rightarrow> nn_batchnorm2d" where
  "load_batchnorm2d sd name bn =
     bn\<lparr>bn_weight := load_tensor sd (name @ ''.weight'') (bn_weight bn),
        bn_bias := load_tensor sd (name @ ''.bias'') (bn_bias bn),
        bn_running_mean := load_tensor sd (name @ ''.running_mean'') (bn_running_mean bn),
        bn_running_var := load_tensor sd (name @ ''.running_var'') (bn_running_var bn)\<rparr>"

definition load_linear :: "state_dict \<Rightarrow> string \<Rightarrow> nn_linear \<Rightarrow> nn_linear" where
  "load_linear sd name l =
     l\<lparr>lin_weight := load_tensor sd (name @ ''.weight'') (lin_weight l),
       lin_bias := load_tensor sd (name @ ''.bias'') (lin_bias l)\<rparr>"

definition load_dsconv :: "state_dict \<Rightarrow> string \<Rightarrow> dsconv \<Rightarrow> dsconv" where
  "load_dsconv sd name b =
     b\<lparr>depthwise := load_conv2d sd (name @ ''.depthwise'') (depthwise b),
       pointwise := load_conv2d sd (name @ ''.pointwise'') (pointwise b),
       bn1 := load_batchnorm2d sd (name @ ''.bn1'') (bn1 b),
       bn2 := load_batchnorm2d sd (name @ ''.bn2'') (bn2 b)\<rparr>"

definition load_matching :: "doodlenet \<Rightarrow> state_dict \<Rightarrow> doodlenet" where
  "load_matching m sd =
     m\<lparr>conv1_conv := load_conv2d sd ''conv1.0'' (conv1_conv m),
       conv1_bn := load_batchnorm2d sd ''conv1.1'' (conv1_bn m),
       features := map (\<lambda>i. load_dsconv sd (''features.'' @ string_of_nat i) (features m ! i))
                       [0..<length (features m)],
       classifier_linear := load_linear sd ''classifier.1'' (classifier_linear m)\<rparr>"

text \<open>
  Reading a weight set from a path, and the reasons to refuse a weight set that this
  model does not spell out (the counters of the normalisation layers, a failing copy),
  are parameters.
\<close>

record torch_io =
  torch_load :: "string \<Rightarrow> py_error + state_dict"
  load_refuses :: "doodlenet \<Rightarrow> state_dict \<Rightarrow> bool"

text \<open>
  \<^verbatim>\<open>Module.load_state_dict(state_dict, strict)\<close> works on the module it is called on: it
  copies every tensor of the weight set that has a declared name and the declared shape,
  and then raises \<^verbatim>\<open>RuntimeError\<close> when a shape differed or, with \<open>strict\<close>, when a
  declared name was missing or an undeclared name was present. The result is the module
  after the copies and the error raised, if any.
\<close>

definition load_state_dict ::
  "torch_io \<Rightarrow> doodlenet \<Rightarrow> state_dict \<Rightarrow> bool \<Rightarrow> doodlenet \<times> py_error option" where
  "load_state_dict io m sd strict =
     (load_matching m sd,
      if size_mismatches m sd \<noteq> []
         \<or> (strict \<and> (missing_keys m sd \<noteq> [] \<or> unexpected_keys m sd \<noteq> []))
         \<or> load_refuses io m sd
      then Some RuntimeError else None)"

text \<open>Lines 87 to 95. An empty path is false in the test of line 91, as \<^verbatim>\<open>None\<close> is;
  the weight set is loaded with the default \<open>strict = True\<close>.\<close>

definition create_model ::
  "torch_io \<Rightarrow> initialiser \<Rightarrow> nat \<Rightarrow> string option \<Rightarrow> py_error + doodlenet" where
  "create_model io init num_classes pretrained_path =
     (let model = DoodleNet init num_classes in
      case pretrained_path of
        None \<Rightarrow> Inr model
      | Some path \<Rightarrow>
          if path = [] then Inr model
          else
            (case torch_load io path of
               Inl e \<Rightarrow> Inl e
             | Inr sd \<Rightarrow>
                 (case load_state_dict io model sd True of
                    (loaded, Some e) \<Rightarrow> Inl e
                  | (loaded, None) \<Rightarrow> Inr loaded)))"

text \<open>A generator, an initialiser and a loader for the closed examples.\<close>

definition sample_random :: "nat torch_random" where
  "sample_random = \<lparr>torch_bernoulli = (\<lambda>p shp g. (\<lambda>idx. (sum_list idx + g) mod 5 \<noteq> 0, Suc g))\<rparr>"

definition sample_init :: initialiser where
  "sample_init name idx = real (length name + sum_list idx) / 100"

definition ten_class_weights :: state_dict where
  "ten_class_weights = declared_params (DoodleNet sample_init 10)"

definition sample_io :: torch_io where
  "sample_io =
     \<lparr>torch_load = (\<lambda>path. if path = ''weights.pt'' then Inr ten_class_weights else Inl RuntimeError),
      load_refuses = (\<lambda>m sd. False)\<rparr>"

text \<open>A weight set that holds one tensor, with the name and the shape of the first
  convolution's weight, and a loader that returns it.\<close>

definition sevens :: torch_tensor where
  "sevens = Tensor [32, 1, 3, 3] (\<lambda>idx. 7)"

definition first_layer_only :: state_dict where
  "first_layer_only = [(''conv1.0.weight'', sevens)]"

definition first_layer_io :: torch_io where
  "first_layer_io =
     \<lparr>torch_load = (\<lambda>path. Inr first_layer_only), load_refuses = (\<lambda>m sd. False)\<rparr>"

section \<open>Lemmas on the rasterizer, the tensors and the augmentation\<close>








lemma py_float_huge: "\<not> fits_float n \<Longrightarrow> py_float (number_to_py (IntNum n)) = Inl OverflowError"
  by simp

lemma py_value_number: "py_value (number_to_py v) = Some (value_of v)"
  by (cases v) simp_all

lemma py_max_number:
  "py_max (number_to_py w) (number_to_py h)
   = Inr (number_to_py (if value_of w < value_of h then h else w))"
  by (simp add: py_max_def py_value_number)












lemma strokes_to_image_canvas:
  "0 \<le> sz \<Longrightarrow>
   strokes_to_image cover (stroke_data_of S w h meta) sz lw pad =
     (case int_truediv (sz - 2 * pad) (number_to_py (if value_of w < value_of h then h else w)) of
        Inl e \<Rightarrow> Inl e
      | Inr sc \<Rightarrow>
          (case py_iter S of Inl e \<Rightarrow> Inl e
           | Inr ss \<Rightarrow> draw_strokes cover sc pad pad lw ss (blank sz)))"
  unfolding strokes_to_image_def stroke_data_of_def
  by (simp add: Image_new_def dict_get_def py_max_number blank_def
      del: of_int_diff of_int_mult split: sum.splits)























lemma convert_point_bad_offset:
  "map_of m ''x'' = Some v \<Longrightarrow> py_float v = Inr a \<Longrightarrow> \<not> fits_float ox
   \<Longrightarrow> convert_point sc ox oy (PDict m) = Inl OverflowError"
  by (simp add: convert_point_def)

lemma inj_pixel_value: "inj (\<lambda>p::8 word. 1 - real (unat p) / 255)"
  by (rule injI) (simp del: of_nat_unat add: word_unat_eq_iff)

lemma image_to_tensor_inj: "image_to_tensor a = image_to_tensor b \<Longrightarrow> a = b"
proof -
  have "inj (map (map (\<lambda>p::8 word. 1 - real (unat p) / 255)))"
    by (intro inj_mapI inj_pixel_value)
  moreover assume "image_to_tensor a = image_to_tensor b"
  ultimately show "a = b"
    by (simp add: image_to_tensor_def expand_dims0_def invert_def astype_float_div255_def inj_def
        comp_def del: of_nat_unat)
qed

lemma batch_preprocess_single:
  assumes "strokes_to_image cover data sz 2 4 = Inr img"
  shows "fst (batch_preprocess lib cover [data] sz True g)
         = (case fst (augment_image lib img None g) of
              Inl e \<Rightarrow> Inl e | Inr im \<Rightarrow> Inr [image_to_tensor im])"
  using assms
  by (simp add: batch_preprocess_def np_stack_def split: prod.splits sum.splits)

lemma sample_augment_0:
  "fst (augment_image sample_library (blank 2) None 0) = Inr [[255, 255], [255, 255]]"
  by code_simp

lemma sample_augment_1:
  "fst (augment_image sample_library (blank 2) None 1) = Inr [[255, 255], [255, 251]]"
  by code_simp




section \<open>What strokes_to_image raises\<close>




section \<open>The uniform scale\<close>




section \<open>Shapes of image and tensor\<close>




section \<open>Polarity of image_to_tensor\<close>

text \<open>
  Claim C4. \<open>image_to_tensor\<close> returns one channel holding, at every pixel position, the
  value \<open>1 - pixel / 255\<close>; so an image whose pixels are all 255 becomes a tensor of
  zeros and an image whose pixels are all 0 becomes a tensor of ones.
\<close>

theorem image_to_tensor_values:
  "image_to_tensor img = [map (map (\<lambda>p. 1 - real (unat p) / 255)) img]
   \<and> image_to_tensor (replicate h (replicate w 255)) = [replicate h (replicate w 0)]
   \<and> image_to_tensor (replicate h (replicate w 0)) = [replicate h (replicate w 1)]"
  by (simp add: image_to_tensor_def expand_dims0_def invert_def astype_float_div255_def)

section \<open>Short strokes and empty drawings\<close>



section \<open>Seeded augmentation\<close>

text \<open>
  Claim C6. With a seed that is not \<^verbatim>\<open>None\<close>, the output of \<open>augment_image\<close> does
  not depend on the state the generator is in when the function is called: two calls
  with the same image and seed return the same output from any two states, and in
  particular when the second call follows the first.
\<close>

theorem augment_image_seeded_deterministic:
  "fst (augment_image lib img (Some s) g) = fst (augment_image lib img (Some s) g')
   \<and> fst (augment_image lib img (Some s) (snd (augment_image lib img (Some s) g)))
       = fst (augment_image lib img (Some s) g)"
  by (simp add: augment_image_def split: sum.splits)

section \<open>Unseeded augmentation in a batch\<close>

text \<open>
  Claim C9. \<open>batch_preprocess\<close> with augmentation calls \<open>augment_image\<close> with no seed, from
  the state the generator is in: on a one-element list its output is the tensor of the
  augmented image drawn from that state, and two generator states from which the
  augmented images differ give different outputs for the same input list.
\<close>

theorem batch_preprocess_unseeded:
  assumes "strokes_to_image cover data sz 2 4 = Inr img"
  shows "fst (batch_preprocess lib cover [data] sz True g)
         = (case fst (augment_image lib img None g) of
              Inl e \<Rightarrow> Inl e | Inr im \<Rightarrow> Inr [image_to_tensor im])
   \<and> (fst (augment_image lib img None g) \<noteq> fst (augment_image lib img None g') \<longrightarrow>
        fst (batch_preprocess lib cover [data] sz True g)
        \<noteq> fst (batch_preprocess lib cover [data] sz True g'))"
proof (intro conjI impI)
  show "fst (batch_preprocess lib cover [data] sz True g)
         = (case fst (augment_image lib img None g) of
              Inl e \<Rightarrow> Inl e | Inr im \<Rightarrow> Inr [image_to_tensor im])"
    using assms by (rule batch_preprocess_single)
next
  assume "fst (augment_image lib img None g) \<noteq> fst (augment_image lib img None g')"
  then show "fst (batch_preprocess lib cover [data] sz True g)
        \<noteq> fst (batch_preprocess lib cover [data] sz True g')"
    by (auto simp add: batch_preprocess_single[OF assms] split: sum.splits dest: image_to_tensor_inj)
qed

text \<open>Claim C9 with the example generator: the same input list, two generator states, two
  different outputs.\<close>

theorem batch_preprocess_unseeded_witness:
  "fst (batch_preprocess sample_library endpoint_cover
          [stroke_data_of (PList []) (IntNum 400) (IntNum 400) []] 2 True 0)
   = Inr [image_to_tensor [[255, 255], [255, 255]]]
   \<and> fst (batch_preprocess sample_library endpoint_cover
            [stroke_data_of (PList []) (IntNum 400) (IntNum 400) []] 2 True 0)
     \<noteq> fst (batch_preprocess sample_library endpoint_cover
              [stroke_data_of (PList []) (IntNum 400) (IntNum 400) []] 2 True 1)"
proof -
  have h: "strokes_to_image endpoint_cover (stroke_data_of (PList []) (IntNum 400) (IntNum 400) [])
             2 2 4 = Inr (blank 2)"
    by (simp add: strokes_to_image_canvas int_truediv_int_def float_limit_def)
  show ?thesis
    using batch_preprocess_unseeded[OF h, of sample_library 0 1] sample_augment_0 sample_augment_1
    by (auto simp del: One_nat_def)
qed

section \<open>The empty batch\<close>

text \<open>
  Claim C10. \<open>batch_preprocess\<close> on the empty list raises \<^verbatim>\<open>ValueError\<close>, the error
  of \<^verbatim>\<open>np.stack\<close> on an empty sequence; it returns no empty batch.
\<close>

theorem batch_preprocess_empty:
  "batch_preprocess lib cover [] sz augment g = (Inl ValueError, g)"
  by (simp add: batch_preprocess_def np_stack_def)

section \<open>The shapes through the network\<close>

lemma conv2d_forward_shape:
  assumes "t_shape x = [N, C, H, W]" and "C = conv_in cv"
    and "conv_kernel cv \<le> H + 2 * conv_padding cv" and "conv_kernel cv \<le> W + 2 * conv_padding cv"
  shows "\<exists>y. conv2d_forward cv x = Inr y
             \<and> t_shape y = [N, conv_out cv, conv_size cv H, conv_size cv W]"
  using assms by (simp add: conv2d_forward_def)

lemma batchnorm2d_forward_shape:
  assumes "t_shape x = [N, C, H, W]" and "C = bn_features bn" and "N * H * W \<noteq> 1"
  shows "\<exists>y. batchnorm2d_forward tr bn x = Inr y \<and> t_shape y = [N, C, H, W]"
  using assms by (simp add: batchnorm2d_forward_def channel_count_def)

lemma relu_shape: "t_shape (relu x) = t_shape x"
  by (simp add: relu_def)

lemma dsconv_forward_shape:
  assumes x: "t_shape x = [N, cin, H, W]" and pos: "0 < H" "0 < W"
    and cnt: "N * ((H - 1) div s + 1) * ((W - 1) div s + 1) \<noteq> 1"
  shows "\<exists>y. dsconv_forward tr (DepthwiseSeparableConv init name cin cout s) x = Inr y
             \<and> t_shape y = [N, cout, (H - 1) div s + 1, (W - 1) div s + 1]"
proof -
  let ?b = "DepthwiseSeparableConv init name cin cout s"
  let ?H = "(H - 1) div s + 1" and ?W = "(W - 1) div s + 1"
  have dw: "conv_in (depthwise ?b) = cin" "conv_out (depthwise ?b) = cin"
    "conv_kernel (depthwise ?b) = 3" "conv_padding (depthwise ?b) = 1"
    "conv_stride (depthwise ?b) = s"
    and pw: "conv_in (pointwise ?b) = cin" "conv_out (pointwise ?b) = cout"
    "conv_kernel (pointwise ?b) = 1" "conv_padding (pointwise ?b) = 0"
    "conv_stride (pointwise ?b) = 1"
    and bn: "bn_features (bn1 ?b) = cin" "bn_features (bn2 ?b) = cout"
    by (simp_all add: DepthwiseSeparableConv_def Conv2d_def BatchNorm2d_def)
  from pos have sz: "conv_size (depthwise ?b) H = ?H" "conv_size (depthwise ?b) W = ?W"
    by (simp_all add: conv_size_def dw)
  have sz1: "conv_size (pointwise ?b) (Suc n) = Suc n" for n
    by (simp add: conv_size_def pw)
  obtain x1 where x1: "conv2d_forward (depthwise ?b) x = Inr x1" "t_shape x1 = [N, cin, ?H, ?W]"
    using conv2d_forward_shape[OF x, of "depthwise ?b"] pos by (auto simp: dw sz)
  obtain x2 where x2: "batchnorm2d_forward tr (bn1 ?b) x1 = Inr x2" "t_shape x2 = [N, cin, ?H, ?W]"
    using batchnorm2d_forward_shape[OF x1(2), of "bn1 ?b" tr] cnt by (auto simp: bn)
  have r2: "t_shape (relu x2) = [N, cin, ?H, ?W]"
    by (simp add: relu_shape x2)
  obtain x4 where x4: "conv2d_forward (pointwise ?b) (relu x2) = Inr x4"
    "t_shape x4 = [N, cout, ?H, ?W]"
    using conv2d_forward_shape[OF r2, of "pointwise ?b"] by (auto simp: pw sz1[simplified])
  obtain x5 where x5: "batchnorm2d_forward tr (bn2 ?b) x4 = Inr x5" "t_shape x5 = [N, cout, ?H, ?W]"
    using batchnorm2d_forward_shape[OF x4(2), of "bn2 ?b" tr] cnt by (auto simp: bn)
  have "dsconv_forward tr ?b x = Inr (relu x5)"
    by (simp add: dsconv_forward_def x1 x2 x4 x5)
  then show ?thesis
    by (simp add: relu_shape x5)
qed

lemma features_forward_shape:
  assumes x: "t_shape x = [N, 32, 32, 32]" and N: "0 < N"
  shows "\<exists>y. features_forward tr (features (DoodleNet init nc)) x = Inr y
             \<and> t_shape y = [N, 512, 4, 4]"
proof -
  obtain y0 where y0: "dsconv_forward tr (DepthwiseSeparableConv init ''features.0'' 32 64 1) x = Inr y0"
    "t_shape y0 = [N, 64, 32, 32]"
    using dsconv_forward_shape[OF x, of 1 tr init "''features.0''" 64] N by auto
  obtain y1 where y1: "dsconv_forward tr (DepthwiseSeparableConv init ''features.1'' 64 128 2) y0 = Inr y1"
    "t_shape y1 = [N, 128, 16, 16]"
    using dsconv_forward_shape[OF y0(2), of 2 tr init "''features.1''" 128] N by auto
  obtain y2 where y2: "dsconv_forward tr (DepthwiseSeparableConv init ''features.2'' 128 128 1) y1 = Inr y2"
    "t_shape y2 = [N, 128, 16, 16]"
    using dsconv_forward_shape[OF y1(2), of 1 tr init "''features.2''" 128] N by auto
  obtain y3 where y3: "dsconv_forward tr (DepthwiseSeparableConv init ''features.3'' 128 256 2) y2 = Inr y3"
    "t_shape y3 = [N, 256, 8, 8]"
    using dsconv_forward_shape[OF y2(2), of 2 tr init "''features.3''" 256] N by auto
  obtain y4 where y4: "dsconv_forward tr (DepthwiseSeparableConv init ''features.4'' 256 256 1) y3 = Inr y4"
    "t_shape y4 = [N, 256, 8, 8]"
    using dsconv_forward_shape[OF y3(2), of 1 tr init "''features.4''" 256] N by auto
  obtain y5 where y5: "dsconv_forward tr (DepthwiseSeparableConv init ''features.5'' 256 512 2) y4 = Inr y5"
    "t_shape y5 = [N, 512, 4, 4]"
    using dsconv_forward_shape[OF y4(2), of 2 tr init "''features.5''" 512] N by auto
  have "features_forward tr (features (DoodleNet init nc)) x = Inr y5"
    by (simp add: DoodleNet_def y0 y1 y2 y3 y4 y5 del: One_nat_def)
  with y5(2) show ?thesis by simp
qed

lemma pooled_features_shape:
  assumes x: "t_shape x = [N, 1, 64, 64]" and N: "0 < N"
    and c1: "conv1_conv m = Conv2d init ''conv1.0'' 1 32 3 2 1 1"
    and b1: "conv1_bn m = BatchNorm2d init ''conv1.1'' 32"
    and fs: "features m = features (DoodleNet init nc)"
  shows "\<exists>f. pooled_features m x = Inr f \<and> t_shape f = [N, 512]"
proof -
  have cfg: "conv_in (conv1_conv m) = 1" "conv_out (conv1_conv m) = 32"
    "conv_kernel (conv1_conv m) = 3" "conv_padding (conv1_conv m) = 1"
    "conv_stride (conv1_conv m) = 2" "bn_features (conv1_bn m) = 32"
    by (simp_all add: c1 b1 Conv2d_def BatchNorm2d_def)
  have sz: "conv_size (conv1_conv m) 64 = 32"
    by (simp add: conv_size_def cfg)
  obtain x1 where x1: "conv2d_forward (conv1_conv m) x = Inr x1" "t_shape x1 = [N, 32, 32, 32]"
    using conv2d_forward_shape[OF x, of "conv1_conv m"] by (auto simp: cfg sz)
  obtain x2 where x2: "batchnorm2d_forward (training m) (conv1_bn m) x1 = Inr x2"
    "t_shape x2 = [N, 32, 32, 32]"
    using batchnorm2d_forward_shape[OF x1(2), of "conv1_bn m" "training m"] N by (auto simp: cfg)
  have r2: "t_shape (relu x2) = [N, 32, 32, 32]"
    by (simp add: relu_shape x2)
  obtain x3 where x3: "features_forward (training m) (features m) (relu x2) = Inr x3"
    "t_shape x3 = [N, 512, 4, 4]"
    using features_forward_shape[OF r2 N, of "training m" init nc] fs by auto
  obtain x4 where x4: "adaptive_avg_pool2d_1 x3 = Inr x4" "t_shape x4 = [N, 512, 1, 1]"
    by (simp add: adaptive_avg_pool2d_1_def x3)
  obtain x5 where x5: "flatten1 x4 = Inr x5" "t_shape x5 = [N, 512]"
    by (simp add: flatten1_def x4)
  have "pooled_features m x = Inr x5"
    unfolding pooled_features_def by (simp only: x1 x2 x3 x4 x5 sum.case)
  with x5(2) show ?thesis by simp
qed

lemma forward_shape:
  assumes x: "t_shape x = [N, 1, 64, 64]" and N: "0 < N"
    and m: "m = (DoodleNet init nc)\<lparr>training := tr\<rparr>"
  shows "\<exists>f. pooled_features m x = Inr f \<and> t_shape f = [N, 512]
           \<and> forward lib m x tg
             = (Inr (linear_apply (classifier_linear m)
                       (fst (dropout_forward lib (classifier_dropout m) (training m) f tg))),
                snd (dropout_forward lib (classifier_dropout m) (training m) f tg))
           \<and> t_shape (linear_apply (classifier_linear m)
                        (fst (dropout_forward lib (classifier_dropout m) (training m) f tg)))
             = [N, nc]"
proof -
  have parts: "conv1_conv m = Conv2d init ''conv1.0'' 1 32 3 2 1 1"
    "conv1_bn m = BatchNorm2d init ''conv1.1'' 32"
    "features m = features (DoodleNet init nc)"
    by (simp_all add: m DoodleNet_def)
  obtain f where f: "pooled_features m x = Inr f" "t_shape f = [N, 512]"
    using pooled_features_shape[OF x N parts] by blast
  have cfg: "lin_in (classifier_linear m) = 512" "lin_out (classifier_linear m) = nc"
    by (simp_all add: m DoodleNet_def Linear_def)
  let ?d = "dropout_forward lib (classifier_dropout m) (training m) f tg"
  obtain x6 tg' where dd: "?d = (x6, tg')"
    by (cases ?d)
  have d6: "t_shape x6 = [N, 512]"
    using dd f(2) by (auto simp: dropout_forward_def split: if_splits prod.splits)
  have "forward lib m x tg = (Inr (linear_apply (classifier_linear m) x6), tg')"
    unfolding forward_def by (simp add: f cfg dd linear_forward_def d6)
  moreover have "t_shape (linear_apply (classifier_linear m) x6) = [N, nc]"
    by (simp add: linear_apply_def d6 cfg)
  ultimately show ?thesis using f by (simp add: dd)
qed

section \<open>Softmax and the greatest probability\<close>

lemma sum_list_pos_nonempty:
  fixes xs :: "real list"
  shows "xs \<noteq> [] \<Longrightarrow> \<forall>v\<in>set xs. 0 < v \<Longrightarrow> 0 < sum_list xs"
proof (induction xs)
  case Nil
  then show ?case by simp
next
  case (Cons a xs)
  show ?case
  proof (cases "xs = []")
    case True
    with Cons.prems show ?thesis by simp
  next
    case False
    with Cons have "0 < sum_list xs" by simp
    moreover from Cons.prems have "0 < a" by simp
    ultimately show ?thesis by simp
  qed
qed

lemma sum_list_map_divide:
  fixes f :: "'a \<Rightarrow> real"
  shows "sum_list (map (\<lambda>k. f k / c) ks) = sum_list (map f ks) / c"
  by (induction ks) (simp_all add: add_divide_distrib)

lemma member_le_sum_list_pos:
  fixes xs :: "real list"
  shows "\<forall>v\<in>set xs. 0 < v \<Longrightarrow> a \<in> set xs \<Longrightarrow> a \<le> sum_list xs"
proof (induction xs)
  case Nil
  then show ?case by simp
next
  case (Cons b xs)
  then have nn: "0 \<le> sum_list xs"
    by (intro sum_list_nonneg) (auto intro: less_imp_le)
  from Cons.prems have b: "0 < b" by simp
  show ?case
  proof (cases "a = b")
    case True
    with nn show ?thesis by simp
  next
    case False
    with Cons have "a \<le> sum_list xs" by simp
    with b show ?thesis by simp
  qed
qed

text \<open>The rows of a softmax over at least one class.\<close>

lemma softmax_rows:
  assumes sh: "t_shape logits = [N, K]" and K: "0 < K"
  shows "\<exists>probs. softmax_dim1 logits = Inr probs \<and> t_shape probs = [N, K]
           \<and> (\<forall>n. length (row_values probs n) = K
                    \<and> sum_list (row_values probs n) = 1
                    \<and> (\<forall>p\<in>set (row_values probs n). 0 < p \<and> p \<le> 1))"
proof -
  let ?e = "\<lambda>n. map (\<lambda>k. exp (t_at logits [n, k])) [0..<K]"
  let ?S = "\<lambda>n. sum_list (?e n)"
  define probs where
    "probs = Tensor (t_shape logits)
               (\<lambda>idx. exp (t_at logits [idx ! 0, idx ! 1])
                       / sum_list (map (\<lambda>k. exp (t_at logits [idx ! 0, k]))
                                       [0..<t_shape logits ! 1]))"
  have sm: "softmax_dim1 logits = Inr probs"
    by (simp add: softmax_dim1_def sh probs_def)
  have psh: "t_shape probs = [N, K]"
    by (simp add: probs_def sh)
  have pos: "\<forall>v\<in>set (?e n). 0 < v" for n by simp
  have S: "0 < ?S n" for n
    using K by (intro sum_list_pos_nonempty pos) simp
  have row: "row_values probs n = map (\<lambda>k. exp (t_at logits [n, k]) / ?S n) [0..<K]" for n
    by (simp add: row_values_def probs_def sh)
  have one: "sum_list (row_values probs n) = 1" for n
    using S[of n] by (simp add: row sum_list_map_divide)
  have rng: "0 < p \<and> p \<le> 1" if "p \<in> set (row_values probs n)" for p n
  proof -
    from that obtain k where k: "k < K" "p = exp (t_at logits [n, k]) / ?S n"
      by (auto simp: row)
    have "exp (t_at logits [n, k]) \<in> set (?e n)" using k(1) by simp
    then have "exp (t_at logits [n, k]) \<le> ?S n"
      by (intro member_le_sum_list_pos pos)
    with S[of n] k(2) show ?thesis by simp
  qed
  have "length (row_values probs n) = K" for n
    by (simp add: row)
  with sm psh one rng show ?thesis
    by (intro exI[of _ probs]) simp
qed

lemma fold_max_hd:
  fixes xs :: "real list"
  shows "xs \<noteq> [] \<Longrightarrow> fold max xs (hd xs) = Max (set xs)"
  by (cases xs) (simp_all add: Max.set_eq_fold[symmetric])

lemma first_index_of_member:
  assumes "v \<in> set xs"
  shows "length (takeWhile (\<lambda>u. u \<noteq> v) xs) < length xs
         \<and> xs ! length (takeWhile (\<lambda>u. u \<noteq> v) xs) = v"
proof -
  have "takeWhile (\<lambda>u. u \<noteq> v) xs \<noteq> xs"
    using assms by (auto simp: takeWhile_eq_all_conv)
  then have lt: "length (takeWhile (\<lambda>u. u \<noteq> v) xs) < length xs"
    using length_takeWhile_le[of "\<lambda>u. u \<noteq> v" xs]
    by (metis le_neq_implies_less takeWhile_eq_take take_all_iff le_refl)
  with nth_length_takeWhile[OF lt] show ?thesis by simp
qed

text \<open>The greatest value of every row and the first index that holds it.\<close>

lemma max_dim1_rows:
  assumes sh: "t_shape probs = [N, K]" and K: "0 < K"
    and len: "\<And>n. length (row_values probs n) = K"
  shows "\<exists>confidence predicted. max_dim1 probs = Inr (confidence, predicted)
           \<and> length confidence = N \<and> length predicted = N
           \<and> (\<forall>n<N. confidence ! n = Max (set (row_values probs n))
                      \<and> predicted ! n < K
                      \<and> row_values probs n ! (predicted ! n) = confidence ! n)"
proof -
  let ?vals = "map (\<lambda>n. fold max (row_values probs n) (hd (row_values probs n))) [0..<N]"
  let ?idxs = "map (\<lambda>n. length (takeWhile (\<lambda>v. v \<noteq> ?vals ! n) (row_values probs n))) [0..<N]"
  have ne: "row_values probs n \<noteq> []" for n
    using len[of n] K by auto
  have mx: "max_dim1 probs = Inr (?vals, ?idxs)"
    using K by (simp add: max_dim1_def sh Let_def)
  have v: "?vals ! n = Max (set (row_values probs n))" if "n < N" for n
    using that by (simp add: fold_max_hd ne)
  have i: "?idxs ! n < K \<and> row_values probs n ! (?idxs ! n) = ?vals ! n" if "n < N" for n
  proof -
    have "Max (set (row_values probs n)) \<in> set (row_values probs n)"
      by (intro Max_in) (simp_all add: ne)
    then have "?vals ! n \<in> set (row_values probs n)"
      using v[OF that] by simp
    from first_index_of_member[OF this] that len[of n] show ?thesis
      by simp
  qed
  show ?thesis
    by (intro exI[of _ ?vals] exI[of _ ?idxs]) (use mx v i in simp)
qed

section \<open>forward and predict\<close>

text \<open>
  Claim C7. Take a classifier built with five classes, in training or in evaluation mode
  and with any initial values of its tensors, and a batch of \<open>N\<close> examples of shape
  1 by 64 by 64, \<open>N\<close> at least 1. Then \<open>forward\<close> returns logits of shape \<open>(N, 5)\<close>; they
  are the values of the final Linear layer on the pooled features of shape \<open>(N, 512)\<close>
  after dropout, and nothing is applied to them. \<open>predict\<close> returns the predicted classes
  and the confidences, \<open>N\<close> of each: for every example the probabilities of the softmax
  over its five logits are at least 0 and sum to 1, the confidence is the greatest of
  them and lies between 0 and 1, and the predicted class is an index below 5 that holds
  it.
\<close>

theorem doodlenet_forward_predict:
  assumes x: "t_shape x = [N, 1, 64, 64]" and N: "0 < N"
    and m: "m = (DoodleNet init 5)\<lparr>training := tr\<rparr>"
  shows "\<exists>pooled logits probs predicted confidence tg'.
           pooled_features m x = Inr pooled \<and> t_shape pooled = [N, 512]
         \<and> logits = linear_apply (classifier_linear m)
                      (fst (dropout_forward lib (classifier_dropout m) (training m) pooled tg))
         \<and> forward lib m x tg = (Inr logits, tg') \<and> t_shape logits = [N, 5]
         \<and> softmax_dim1 logits = Inr probs
         \<and> predict lib m x tg = (Inr (predicted, confidence), tg')
         \<and> length predicted = N \<and> length confidence = N
         \<and> (\<forall>n<N. length (row_values probs n) = 5
                  \<and> sum_list (row_values probs n) = 1
                  \<and> (\<forall>p\<in>set (row_values probs n). 0 \<le> p \<and> p \<le> confidence ! n)
                  \<and> predicted ! n < 5
                  \<and> row_values probs n ! (predicted ! n) = confidence ! n
                  \<and> 0 \<le> confidence ! n \<and> confidence ! n \<le> 1)"
proof -
  obtain pooled where p: "pooled_features m x = Inr pooled" "t_shape pooled = [N, 512]"
    and fw: "forward lib m x tg
             = (Inr (linear_apply (classifier_linear m)
                       (fst (dropout_forward lib (classifier_dropout m) (training m) pooled tg))),
                snd (dropout_forward lib (classifier_dropout m) (training m) pooled tg))"
    and sh: "t_shape (linear_apply (classifier_linear m)
                        (fst (dropout_forward lib (classifier_dropout m) (training m) pooled tg)))
             = [N, 5]"
    using forward_shape[OF x N m, of lib tg] by blast
  define logits where
    "logits = linear_apply (classifier_linear m)
                (fst (dropout_forward lib (classifier_dropout m) (training m) pooled tg))"
  define tg' where "tg' = snd (dropout_forward lib (classifier_dropout m) (training m) pooled tg)"
  have fw': "forward lib m x tg = (Inr logits, tg')" and sh': "t_shape logits = [N, 5]"
    using fw sh by (simp_all add: logits_def tg'_def)
  obtain probs where sm: "softmax_dim1 logits = Inr probs" and psh: "t_shape probs = [N, 5]"
    and rows: "\<And>n. length (row_values probs n) = 5"
      "\<And>n. sum_list (row_values probs n) = 1"
      "\<And>n p. p \<in> set (row_values probs n) \<Longrightarrow> 0 < p \<and> p \<le> 1"
    using softmax_rows[OF sh', simplified] by blast
  obtain confidence predicted where mx: "max_dim1 probs = Inr (confidence, predicted)"
    and lens: "length confidence = N" "length predicted = N"
    and best: "\<And>n. n < N \<Longrightarrow> confidence ! n = Max (set (row_values probs n))
                      \<and> predicted ! n < 5
                      \<and> row_values probs n ! (predicted ! n) = confidence ! n"
    using max_dim1_rows[OF psh _ rows(1), simplified] by blast
  have pr: "predict lib m x tg = (Inr (predicted, confidence), tg')"
    by (simp add: predict_def fw' sm mx)
  have per: "length (row_values probs n) = 5
                  \<and> sum_list (row_values probs n) = 1
                  \<and> (\<forall>p\<in>set (row_values probs n). 0 \<le> p \<and> p \<le> confidence ! n)
                  \<and> predicted ! n < 5
                  \<and> row_values probs n ! (predicted ! n) = confidence ! n
                  \<and> 0 \<le> confidence ! n \<and> confidence ! n \<le> 1" if n: "n < N" for n
  proof -
    note b = best[OF n]
    have ne: "row_values probs n \<noteq> []" using rows(1)[of n] by auto
    have le: "p \<le> confidence ! n" if "p \<in> set (row_values probs n)" for p
      using that b by simp
    have "confidence ! n \<in> set (row_values probs n)"
      using b Max_in[of "set (row_values probs n)"] ne by simp
    then have c: "0 < confidence ! n \<and> confidence ! n \<le> 1"
      by (rule rows(3))
    show ?thesis
      using rows(1)[of n] rows(2)[of n] rows(3)[of _ n] le b c by (auto intro: less_imp_le)
  qed
  show ?thesis
    using p fw' sh' sm pr lens per logits_def by blast
qed


text \<open>Claim C7 on a batch of two examples, with the example generator and initialiser.\<close>

theorem doodlenet_forward_predict_witness:
  "\<exists>logits predicted confidence tg'.
     forward sample_random ((DoodleNet sample_init 5)\<lparr>training := True\<rparr>)
       (Tensor [2, 1, 64, 64] (\<lambda>idx. 0)) 0 = (Inr logits, tg')
     \<and> t_shape logits = [2, 5]
     \<and> predict sample_random ((DoodleNet sample_init 5)\<lparr>training := True\<rparr>)
         (Tensor [2, 1, 64, 64] (\<lambda>idx. 0)) 0 = (Inr (predicted, confidence), tg')
     \<and> length predicted = 2 \<and> length confidence = 2
     \<and> predicted ! 0 < 5 \<and> 0 \<le> confidence ! 0 \<and> confidence ! 0 \<le> 1
     \<and> predicted ! 1 < 5 \<and> 0 \<le> confidence ! 1 \<and> confidence ! 1 \<le> 1"
proof -
  have h: "t_shape (Tensor [2, 1, 64, 64] (\<lambda>idx. 0)) = [2, 1, 64, 64]" "0 < (2::nat)"
    by simp_all
  from doodlenet_forward_predict[OF h refl, where init = sample_init and tr = True and lib = sample_random and tg = 0]
  obtain logits predicted confidence tg' where
    "forward sample_random ((DoodleNet sample_init 5)\<lparr>training := True\<rparr>)
       (Tensor [2, 1, 64, 64] (\<lambda>idx. 0)) 0 = (Inr logits, tg')"
    "t_shape logits = [2, 5]"
    "predict sample_random ((DoodleNet sample_init 5)\<lparr>training := True\<rparr>)
         (Tensor [2, 1, 64, 64] (\<lambda>idx. 0)) 0 = (Inr (predicted, confidence), tg')"
    "length predicted = 2" "length confidence = 2"
    "\<forall>n<2. predicted ! n < 5 \<and> 0 \<le> confidence ! n \<and> confidence ! n \<le> 1"
    by blast
  moreover from this(6) have "predicted ! 0 < 5 \<and> 0 \<le> confidence ! 0 \<and> confidence ! 0 \<le> 1"
    "predicted ! 1 < 5 \<and> 0 \<le> confidence ! 1 \<and> confidence ! 1 \<le> 1"
    by simp_all
  ultimately show ?thesis by blast
qed

section \<open>Loading a weight set that does not match\<close>

lemma string_of_nat_digit: "n < 10 \<Longrightarrow> string_of_nat n = [''0123456789'' ! n]"
  by (subst string_of_nat.simps) simp

lemma features_length: "length (features (DoodleNet init nc)) = 6"
  by (simp add: DoodleNet_def)


lemma declared_params_keys:
  "map fst (declared_params (DoodleNet init nc)) =
     [''conv1.0.weight'', ''conv1.1.weight'', ''conv1.1.bias'', ''conv1.1.running_mean'',
      ''conv1.1.running_var''] @
     concat (map (\<lambda>i. [''features.'' @ i @ ''.depthwise.weight'', ''features.'' @ i @ ''.pointwise.weight'',
                         ''features.'' @ i @ ''.bn1.weight'', ''features.'' @ i @ ''.bn1.bias'',
                         ''features.'' @ i @ ''.bn1.running_mean'', ''features.'' @ i @ ''.bn1.running_var'',
                         ''features.'' @ i @ ''.bn2.weight'', ''features.'' @ i @ ''.bn2.bias'',
                         ''features.'' @ i @ ''.bn2.running_mean'', ''features.'' @ i @ ''.bn2.running_var''])
                 [''0'', ''1'', ''2'', ''3'', ''4'', ''5'']) @
     [''classifier.1.weight'', ''classifier.1.bias'']"
  by (simp add: declared_params_def features_length dsconv_params_def conv2d_params_def
      batchnorm2d_params_def linear_params_def string_of_nat_digit upt_rec)

lemma classifier_weight_lookup:
  "map_of (declared_params (DoodleNet init nc)) ''classifier.1.weight''
   = Some (Tensor [nc, 512] (init ''classifier.1.weight''))"
  apply (simp add: declared_params_def features_length dsconv_params_def conv2d_params_def
      batchnorm2d_params_def linear_params_def string_of_nat_digit upt_rec)
  apply (simp add: DoodleNet_def Linear_def)
  done

lemma classifier_weight_declared:
  "(''classifier.1.weight'', Tensor [nc, 512] (init ''classifier.1.weight''))
   \<in> set (declared_params (DoodleNet init nc))"
  by (rule map_of_SomeD) (rule classifier_weight_lookup)

lemma size_mismatchesI:
  assumes "(k, t) \<in> set (declared_params m)" and "map_of sd k = Some t'"
    and "t_shape t' \<noteq> t_shape t"
  shows "size_mismatches m sd \<noteq> []"
  unfolding size_mismatches_def using assms
  by (auto simp add: filter_empty_conv intro!: bexI[of _ "(k, t)"])

lemma ten_class_lookup:
  "map_of ten_class_weights ''classifier.1.weight''
   = Some (Tensor [10, 512] (sample_init ''classifier.1.weight''))"
  unfolding ten_class_weights_def by (rule classifier_weight_lookup)

lemma ten_class_mismatch: "structure_mismatch (DoodleNet sample_init 5) ten_class_weights"
proof -
  have "size_mismatches (DoodleNet sample_init 5) ten_class_weights \<noteq> []"
    using classifier_weight_declared[of 5 sample_init] ten_class_lookup
    by (rule size_mismatchesI) simp
  then show ?thesis by (simp add: structure_mismatch_def)
qed


lemma load_state_dict_mismatch:
  assumes "structure_mismatch m sd"
  shows "load_state_dict io m sd True = (load_matching m sd, Some RuntimeError)"
  using assms by (auto simp add: load_state_dict_def structure_mismatch_def)

lemma missing_keysI:
  assumes "(k, t) \<in> set (declared_params m)" and "map_of sd k = None"
  shows "missing_keys m sd \<noteq> []"
  unfolding missing_keys_def using assms
  by (auto simp add: filter_empty_conv intro!: bexI[of _ "(k, t)"])

lemma first_layer_only_mismatch: "structure_mismatch (DoodleNet sample_init 5) first_layer_only"
proof -
  have "missing_keys (DoodleNet sample_init 5) first_layer_only \<noteq> []"
    using classifier_weight_declared[of 5 sample_init]
    by (rule missing_keysI) (simp add: first_layer_only_def)
  then show ?thesis by (simp add: structure_mismatch_def)
qed

lemma first_layer_loaded:
  "conv_weight (conv1_conv (load_matching (DoodleNet sample_init 5) first_layer_only)) = sevens"
  by (simp add: load_matching_def load_conv2d_def load_tensor_def first_layer_only_def
      sevens_def DoodleNet_def Conv2d_def)

lemma first_layer_initial:
  "conv_weight (conv1_conv (DoodleNet sample_init 5))
   = Tensor [32, 1, 3, 3] (sample_init ''conv1.0.weight'')"
  by (simp add: DoodleNet_def Conv2d_def)

lemma first_layer_differs: "sevens \<noteq> conv_weight (conv1_conv (DoodleNet sample_init 5))"
proof
  assume "sevens = conv_weight (conv1_conv (DoodleNet sample_init 5))"
  then have "(\<lambda>idx. 7) = sample_init ''conv1.0.weight''"
    by (simp add: sevens_def first_layer_initial)
  then have "(7::real) = sample_init ''conv1.0.weight'' []"
    by (rule fun_cong)
  then show False
    by (simp add: sample_init_def)
qed

text \<open>
  Claim C8 says that a load that fails raises \<^verbatim>\<open>ShapeMismatchError\<close> and leaves the
  parameters of the classifier as they were, never partly applied. The weight set here
  holds only \<open>conv1.0.weight\<close>, with the declared shape and the value 7 everywhere, and is
  loaded into a new five-class classifier: every other declared name is missing, the
  strict load raises \<^verbatim>\<open>RuntimeError\<close> (the source has no \<^verbatim>\<open>ShapeMismatchError\<close>),
  and when it raises, the weight of the first convolution of the classifier has been
  overwritten with the loaded tensor: the weight set is partly applied.
\<close>

theorem load_state_dict_partial_counterexample:
  "snd (load_state_dict first_layer_io (DoodleNet sample_init 5) first_layer_only True)
     = Some RuntimeError
   \<and> conv_weight
        (conv1_conv (fst (load_state_dict first_layer_io (DoodleNet sample_init 5)
                            first_layer_only True)))
     = sevens
   \<and> conv_weight
        (conv1_conv (fst (load_state_dict first_layer_io (DoodleNet sample_init 5)
                            first_layer_only True)))
     \<noteq> conv_weight (conv1_conv (DoodleNet sample_init 5))
   \<and> create_model first_layer_io sample_init 5 (Some ''weights.pt'') = Inl RuntimeError"
  using first_layer_differs
  by (simp add: load_state_dict_mismatch[OF first_layer_only_mismatch] first_layer_loaded
      create_model_def first_layer_io_def)

text \<open>
  Claim C8, amended. When the weight set read from a non-empty path does not match the
  declared parameters of the new classifier (a declared name is missing, an undeclared
  name is present, or a tensor has another shape), the strict load raises
  \<^verbatim>\<open>RuntimeError\<close>, the library's error for a weight set of the wrong structure, after
  it has copied the tensors with a declared name and shape into the module it was called
  on; \<open>create_model\<close> raises that error too and returns no classifier. The partly loaded
  module is local to \<open>create_model\<close> and is not returned.
\<close>

theorem create_model_rejects_mismatch:
  assumes "torch_load io path = Inr sd" and "path \<noteq> []"
    and "structure_mismatch (DoodleNet init num_classes) sd"
  shows "load_state_dict io (DoodleNet init num_classes) sd True
           = (load_matching (DoodleNet init num_classes) sd, Some RuntimeError)
         \<and> create_model io init num_classes (Some path) = Inl RuntimeError"
  using assms by (simp add: create_model_def load_state_dict_mismatch)

text \<open>The amended claim C8 on the weights of a ten-class classifier, loaded into a
  five-class one.\<close>

theorem create_model_rejects_mismatch_witness:
  "create_model sample_io sample_init 5 (Some ''weights.pt'') = Inl RuntimeError"
  using create_model_rejects_mismatch[of sample_io "''weights.pt''" ten_class_weights sample_init 5]
    ten_class_mismatch
  by (simp add: sample_io_def)

end
